theory Spec2Isabelle
  imports Main "HOL-Library.Word"
begin

section \<open>The C11 threads shim over pthreads (macos-compat/include/threads.h)\<close>

text \<open>
  The header forwards seven C11 thread operations to the pthread and nanosleep
  primitives of the host. The primitives are not part of the repository: every
  operation below takes the primitive it calls as a parameter, a function from the
  arguments of the call to what the call leaves behind (its return value and the
  contents of the locations it was handed). Values follow the LP64 data model of the
  target: \<open>int\<close> has 32 bits, \<open>intptr_t\<close> and every pointer have 64 bits.
\<close>

subsection \<open>Types\<close>

type_synonym cint = "32 word"
type_synonym intptr_t = "64 word"
type_synonym voidp = "64 word"

text \<open>\<open>typedef pthread_t thrd_t;\<close> and \<open>typedef int ( *thrd_start_t)(void * );\<close>\<close>

type_synonym pthread_t = "64 word"
type_synonym thrd_t = pthread_t
type_synonym thrd_start_t = "voidp \<Rightarrow> cint"

record timespec =
  tv_sec :: "64 word"
  tv_nsec :: "64 word"

text \<open>
  \<open>enum { thrd_success = 0, thrd_error = 1, thrd_timedout = 2, thrd_busy = 3,
  thrd_nomem = 4 };\<close>
\<close>

definition thrd_success :: cint where "thrd_success = 0"
definition thrd_error :: cint where "thrd_error = 1"
definition thrd_timedout :: cint where "thrd_timedout = 2"
definition thrd_busy :: cint where "thrd_busy = 3"
definition thrd_nomem :: cint where "thrd_nomem = 4"

definition status_codes :: "cint set" where
  "status_codes = {thrd_success, thrd_error, thrd_timedout, thrd_busy, thrd_nomem}"

subsection \<open>The primitives, as parameters\<close>

text \<open>
  A location passed by pointer is modelled by its contents: the call receives the
  contents before and returns the contents after. A pointer that may be null is an
  \<open>option\<close>, \<open>None\<close> for \<open>NULL\<close>.

  \<^item> \<open>pthread_create(thr, attr, start, arg)\<close>: the return value and the contents of
    \<open>*thr\<close> after the call. A cast between function pointer types leaves the pointer
    as it is, so the primitive receives \<open>func\<close> itself.
  \<^item> \<open>pthread_join(thr, &retval)\<close>: the return value and the contents of \<open>retval\<close>
    after the call.
  \<^item> \<open>pthread_equal(a, b)\<close>, \<open>pthread_detach(thr)\<close>: the return value.
  \<^item> \<open>pthread_self()\<close>: takes no argument and answers from what the host holds at the
    moment of the call: the result is a function of the state of the host at the call
    and of the calling thread.
  \<^item> \<open>nanosleep(dur, rem)\<close>: the return value and the contents of \<open>*rem\<close> after the
    call.
\<close>

type_synonym 'attr native_create =
  "pthread_t \<Rightarrow> 'attr option \<Rightarrow> thrd_start_t \<Rightarrow> voidp \<Rightarrow> cint \<times> pthread_t"
type_synonym native_join = "pthread_t \<Rightarrow> cint \<times> voidp"
type_synonym native_equal = "pthread_t \<Rightarrow> pthread_t \<Rightarrow> cint"
type_synonym native_detach = "pthread_t \<Rightarrow> cint"
type_synonym ('state, 'thread) native_self = "'state \<Rightarrow> 'thread \<Rightarrow> pthread_t"
type_synonym native_nanosleep =
  "timespec option \<Rightarrow> timespec option \<Rightarrow> cint \<times> timespec option"

text \<open>
  \<open>pthread_exit\<close> is declared not to return. What an operation does to the control
  of its caller is therefore one of two things: it returns a value, or it ends the
  calling thread in \<open>pthread_exit(p)\<close>.
\<close>

datatype 'a control = Returns 'a | Pthread_exit voidp

subsection \<open>The casts between \<open>int\<close> and \<open>void *\<close>\<close>

text \<open>
  \<open>(void * )(intptr_t)res\<close>: \<open>int\<close> to \<open>intptr_t\<close> extends the sign, \<open>intptr_t\<close> to
  pointer keeps the 64 bits.
\<close>

definition ptr_of_int :: "cint \<Rightarrow> voidp" where
  "ptr_of_int res = scast res"

text \<open>
  \<open>(int)(intptr_t)retval\<close>: pointer to \<open>intptr_t\<close> keeps the 64 bits, \<open>intptr_t\<close> to
  \<open>int\<close> keeps the low 32 bits.
\<close>

definition int_of_ptr :: "voidp \<Rightarrow> cint" where
  "int_of_ptr retval = ucast retval"

subsection \<open>The seven operations\<close>

text \<open>
  \<open>return pthread_create(thr, NULL, (void *( * )(void * ))func, arg) ? thrd_error :
  thrd_success;\<close>
  The result is the status and the contents of \<open>*thr\<close> after the call.
\<close>

definition thrd_create ::
  "'attr native_create \<Rightarrow> thrd_t \<Rightarrow> thrd_start_t \<Rightarrow> voidp \<Rightarrow> cint \<times> thrd_t" where
  "thrd_create pthread_create thr func arg =
     (case pthread_create thr None func arg of
        (rc, thr') \<Rightarrow> (if rc \<noteq> 0 then thrd_error else thrd_success, thr'))"

text \<open>
  \<open>void *retval;
  if (pthread_join(thr, &retval)) return thrd_error;
  if (res) *res = (int)(intptr_t)retval;
  return thrd_success;\<close>
  \<open>res\<close> is \<open>None\<close> for a null pointer and \<open>Some v\<close> for a location that holds \<open>v\<close>;
  the result is the status and \<open>res\<close> after the call.
\<close>

definition thrd_join :: "native_join \<Rightarrow> thrd_t \<Rightarrow> cint option \<Rightarrow> cint \<times> cint option" where
  "thrd_join pthread_join thr res =
     (case pthread_join thr of
        (rc, retval) \<Rightarrow>
          if rc \<noteq> 0 then (thrd_error, res)
          else (thrd_success,
                case res of None \<Rightarrow> None | Some old \<Rightarrow> Some (int_of_ptr retval)))"

text \<open>\<open>return pthread_equal(a, b);\<close>\<close>

definition thrd_equal :: "native_equal \<Rightarrow> thrd_t \<Rightarrow> thrd_t \<Rightarrow> cint" where
  "thrd_equal pthread_equal a b = pthread_equal a b"

text \<open>
  \<open>return pthread_self();\<close>, called in the state \<open>s\<close> of the host on the calling thread
  \<open>self\<close>.
\<close>

definition thrd_current ::
  "('state, 'thread) native_self \<Rightarrow> 'state \<Rightarrow> 'thread \<Rightarrow> thrd_t" where
  "thrd_current pthread_self s self = pthread_self s self"

text \<open>\<open>return pthread_detach(thr) ? thrd_error : thrd_success;\<close>\<close>

definition thrd_detach :: "native_detach \<Rightarrow> thrd_t \<Rightarrow> cint" where
  "thrd_detach pthread_detach thr =
     (if pthread_detach thr \<noteq> 0 then thrd_error else thrd_success)"

text \<open>\<open>pthread_exit((void * )(intptr_t)res);\<close>\<close>

definition thrd_exit :: "cint \<Rightarrow> unit control" where
  "thrd_exit res = Pthread_exit (ptr_of_int res)"

text \<open>
  \<open>return nanosleep(dur, rem);\<close>
  The result is the returned value and the contents of \<open>*rem\<close> after the call.
\<close>

definition thrd_sleep ::
  "native_nanosleep \<Rightarrow> timespec option \<Rightarrow> timespec option \<Rightarrow> cint \<times> timespec option" where
  "thrd_sleep nanosleep dur rem = nanosleep dur rem"

subsection \<open>Sample behaviours of the primitives\<close>

text \<open>
  Concrete primitives on which the operations can be run. Each one is a behaviour that
  POSIX allows the primitive to show at one call.

  A create that succeeds and stores the handle of the new thread; a create that fails
  with \<open>EAGAIN\<close> (35) and leaves \<open>*thr\<close> as it found it; and a create that fails with
  \<open>EAGAIN\<close> after it has stored into \<open>*thr\<close> (POSIX leaves the contents of \<open>*thr\<close>
  undefined when \<open>pthread_create\<close> fails).
\<close>

definition pthread_create_ok :: "unit native_create" where
  "pthread_create_ok thr attr start arg = (0, 4096)"

definition pthread_create_eagain :: "unit native_create" where
  "pthread_create_eagain thr attr start arg = (35, thr)"

definition pthread_create_eagain_stored :: "unit native_create" where
  "pthread_create_eagain_stored thr attr start arg = (35, 4096)"

text \<open>
  A join that succeeds and delivers \<open>p\<close>, and a join that fails with \<open>ESRCH\<close> (3).
\<close>

definition pthread_join_yields :: "voidp \<Rightarrow> native_join" where
  "pthread_join_yields p thr = (0, p)"

definition pthread_join_esrch :: native_join where
  "pthread_join_esrch thr = (3, 0)"

text \<open>
  The comparison of thread identifiers, and the identifier of thread number \<open>n\<close>, the
  same in every state \<open>s\<close> of the host (a count of the calls made so far).
\<close>

definition pthread_equal_ids :: native_equal where
  "pthread_equal_ids a b = (if a = b then 1 else 0)"

definition pthread_self_id :: "(nat, nat) native_self" where
  "pthread_self_id s n = 4096 * of_nat n"

text \<open>A detach that succeeds and a detach that fails with \<open>EINVAL\<close> (22).\<close>

definition pthread_detach_ok :: native_detach where
  "pthread_detach_ok thr = 0"

definition pthread_detach_einval :: native_detach where
  "pthread_detach_einval thr = 22"

text \<open>
  A sleep that runs its full duration, and a sleep that a signal interrupts at once:
  \<open>nanosleep\<close> then returns \<open>-1\<close> and stores the time left, where a location was given.
\<close>

definition nanosleep_elapsed :: native_nanosleep where
  "nanosleep_elapsed dur rem = (0, rem)"

definition nanosleep_eintr :: native_nanosleep where
  "nanosleep_eintr dur rem =
     (- 1, case rem of None \<Rightarrow> None
           | Some r \<Rightarrow> (case dur of None \<Rightarrow> Some r | Some d \<Rightarrow> Some d))"

text \<open>A start routine that returns \<open>v\<close> whatever its argument.\<close>

definition start_returning :: "cint \<Rightarrow> thrd_start_t" where
  "start_returning v arg = v"

section \<open>Properties\<close>

subsection \<open>Auxiliary facts\<close>

lemma thrd_error_neq_success: "thrd_error \<noteq> thrd_success"
  by (simp add: thrd_error_def thrd_success_def)

lemma int_of_ptr_of_int: "int_of_ptr (ptr_of_int c) = c"
  unfolding int_of_ptr_def ptr_of_int_def
  by (rule bit_word_eqI) (auto simp add: bit_simps)

lemma int_of_ptr_word_cat: "int_of_ptr (word_cat (hi :: 32 word) (c :: cint)) = c"
  unfolding int_of_ptr_def
  by (rule bit_word_eqI) (auto simp add: bit_simps)

lemma sint_ptr_of_int: "sint (ptr_of_int c) = sint c"
  unfolding ptr_of_int_def
  by (simp add: sint_up_scast is_up)

lemma thrd_join_success:
  "pthread_join thr = (0, p) \<Longrightarrow>
   thrd_join pthread_join thr (Some old) = (thrd_success, Some (int_of_ptr p))"
  by (simp add: thrd_join_def)

lemma thrd_create_status_cases:
  "fst (thrd_create pthread_create thr func arg) = thrd_success \<or>
   fst (thrd_create pthread_create thr func arg) = thrd_error"
  by (simp add: thrd_create_def split: prod.splits)

lemma thrd_join_status_cases:
  "fst (thrd_join pthread_join thr res) = thrd_success \<or>
   fst (thrd_join pthread_join thr res) = thrd_error"
  by (simp add: thrd_join_def split: prod.splits)

lemma thrd_detach_status_cases:
  "thrd_detach pthread_detach thr = thrd_success \<or>
   thrd_detach pthread_detach thr = thrd_error"
  by (simp add: thrd_detach_def)

subsection \<open>Create, then Join\<close>

text \<open>
  C1. The start routine has type \<open>int (void * )\<close> and the native create receives it
  under the type \<open>void *( * )(void * )\<close>: when the routine returns \<open>v\<close>, the value the
  native layer captures is pointer-sized, its low 32 bits are \<open>v\<close> and its upper 32
  bits \<open>hi\<close> are whatever the return register held. For every start routine \<open>f\<close>,
  every argument \<open>a\<close> and every \<open>hi\<close>: when Create has returned Success and stored the
  handle \<open>thr\<close>, and the native join on \<open>thr\<close> succeeds and delivers the value captured
  from \<open>f a\<close>, Join returns Success and stores exactly \<open>f a\<close> in \<open>result_out\<close>, whichever
  of the \<open>2 ^ 32\<close> values of \<open>int\<close> it is. The handle joined is the one the native
  create stored.
\<close>

theorem thrd_create_join_result:
  fixes hi :: "32 word"
  assumes "thrd_create pthread_create thr0 f a = (thrd_success, thr)"
      and "pthread_join thr = (0, word_cat hi (f a))"
  shows "thrd_join pthread_join thr (Some old) = (thrd_success, Some (f a)) \<and>
         pthread_create thr0 None f a = (0, thr)"
proof -
  have "thrd_join pthread_join thr (Some old) = (thrd_success, Some (f a))"
    using assms(2) by (simp add: thrd_join_success int_of_ptr_word_cat)
  moreover have "pthread_create thr0 None f a = (0, thr)"
    using assms(1)
    by (simp add: thrd_create_def thrd_error_neq_success split: prod.splits if_splits)
  ultimately show ?thesis by simp
qed

text \<open>
  The routine returns \<open>INT_MIN\<close>, the upper half of the captured value is
  \<open>0x12345678\<close>.
\<close>

theorem thrd_create_join_result_witness:
  "thrd_create pthread_create_ok 0 (start_returning (- 2147483648)) 0 = (thrd_success, 4096) \<and>
   thrd_join (pthread_join_yields (word_cat (305419896 :: 32 word) (- 2147483648 :: cint)))
     4096 (Some 0) = (thrd_success, Some (- 2147483648))"
proof -
  have c: "thrd_create pthread_create_ok 0 (start_returning (- 2147483648)) 0 =
             (thrd_success, 4096)"
    by (simp add: thrd_create_def pthread_create_ok_def)
  have j: "pthread_join_yields (word_cat (305419896 :: 32 word) (- 2147483648 :: cint)) 4096 =
             (0, word_cat (305419896 :: 32 word) (start_returning (- 2147483648) 0))"
    by (simp add: pthread_join_yields_def start_returning_def)
  from thrd_create_join_result
      [where pthread_create = pthread_create_ok and ?thr0.0 = 0
         and f = "start_returning (- 2147483648)" and a = 0 and thr = 4096
         and pthread_join =
           "pthread_join_yields (word_cat (305419896 :: 32 word) (- 2147483648 :: cint))"
         and hi = 305419896 and old = 0, OF c j] c
  show ?thesis
    by (simp add: start_returning_def)
qed

subsection \<open>Status values\<close>

text \<open>
  C2, as amended. Every status returned by Create, Join and Detach is Success or Error,
  hence one of the five values of the enumeration. Sleep returns the value of the
  native sleep unchanged: it is Success exactly when the native sleep returns zero
  (normal completion), and it is a member of the enumeration exactly when the native
  value is.
\<close>

theorem thrd_status_values:
  "(fst (thrd_create pthread_create thr0 func arg) = thrd_success \<or>
    fst (thrd_create pthread_create thr0 func arg) = thrd_error) \<and>
   (fst (thrd_join pthread_join thr res) = thrd_success \<or>
    fst (thrd_join pthread_join thr res) = thrd_error) \<and>
   (thrd_detach pthread_detach thr' = thrd_success \<or>
    thrd_detach pthread_detach thr' = thrd_error) \<and>
   fst (thrd_create pthread_create thr0 func arg) \<in> status_codes \<and>
   fst (thrd_join pthread_join thr res) \<in> status_codes \<and>
   thrd_detach pthread_detach thr' \<in> status_codes \<and>
   fst (thrd_sleep nanosleep dur rem) = fst (nanosleep dur rem) \<and>
   (fst (thrd_sleep nanosleep dur rem) = thrd_success) = (fst (nanosleep dur rem) = 0) \<and>
   (fst (thrd_sleep nanosleep dur rem) \<in> status_codes) =
     (fst (nanosleep dur rem) \<in> status_codes)"
proof -
  have c: "fst (thrd_create pthread_create thr0 func arg) = thrd_success \<or>
           fst (thrd_create pthread_create thr0 func arg) = thrd_error"
    by (rule thrd_create_status_cases)
  have j: "fst (thrd_join pthread_join thr res) = thrd_success \<or>
           fst (thrd_join pthread_join thr res) = thrd_error"
    by (rule thrd_join_status_cases)
  have d: "thrd_detach pthread_detach thr' = thrd_success \<or>
           thrd_detach pthread_detach thr' = thrd_error"
    by (rule thrd_detach_status_cases)
  have "fst (thrd_create pthread_create thr0 func arg) \<in> status_codes"
    using c by (auto simp add: status_codes_def)
  moreover have "fst (thrd_join pthread_join thr res) \<in> status_codes"
    using j by (auto simp add: status_codes_def)
  moreover have "thrd_detach pthread_detach thr' \<in> status_codes"
    using d by (auto simp add: status_codes_def)
  moreover have "thrd_sleep nanosleep dur rem = nanosleep dur rem"
    by (simp add: thrd_sleep_def)
  ultimately show ?thesis
    using c j d by (simp add: thrd_success_def)
qed

text \<open>
  A create, a join and a detach that fail, and a sleep that runs its full duration.
\<close>

theorem thrd_status_values_witness:
  "fst (thrd_create pthread_create_eagain 0 (start_returning 7) 0) = thrd_error \<and>
   fst (thrd_join pthread_join_esrch 4096 None) = thrd_error \<and>
   thrd_detach pthread_detach_einval 4096 = thrd_error \<and>
   fst (thrd_sleep nanosleep_elapsed (Some \<lparr>tv_sec = 1, tv_nsec = 0\<rparr>) None) = thrd_success"
proof -
  have n: "fst (nanosleep_elapsed (Some \<lparr>tv_sec = 1, tv_nsec = 0\<rparr>) None) = 0"
    by (simp add: nanosleep_elapsed_def)
  have c: "fst (thrd_create pthread_create_eagain 0 (start_returning 7) 0) \<noteq> thrd_success"
    by (simp add: thrd_create_def pthread_create_eagain_def thrd_error_neq_success)
  have j: "fst (thrd_join pthread_join_esrch 4096 None) \<noteq> thrd_success"
    by (simp add: thrd_join_def pthread_join_esrch_def thrd_error_neq_success)
  have d: "thrd_detach pthread_detach_einval 4096 \<noteq> thrd_success"
    by (simp add: thrd_detach_def pthread_detach_einval_def thrd_error_neq_success)
  note t = thrd_status_values
    [where pthread_create = pthread_create_eagain and ?thr0.0 = 0
       and func = "start_returning 7" and arg = 0
       and pthread_join = pthread_join_esrch and thr = 4096 and res = None
       and pthread_detach = pthread_detach_einval and thr' = 4096
       and nanosleep = nanosleep_elapsed
       and dur = "Some \<lparr>tv_sec = 1, tv_nsec = 0\<rparr>" and rem = None]
  from t c have "fst (thrd_create pthread_create_eagain 0 (start_returning 7) 0) = thrd_error"
    by blast
  moreover from t j have "fst (thrd_join pthread_join_esrch 4096 None) = thrd_error"
    by blast
  moreover from t d have "thrd_detach pthread_detach_einval 4096 = thrd_error"
    by blast
  moreover from t n
  have "fst (thrd_sleep nanosleep_elapsed (Some \<lparr>tv_sec = 1, tv_nsec = 0\<rparr>) None) =
          thrd_success"
    by blast
  ultimately show ?thesis by blast
qed

text \<open>
  C2 as stated fails for Sleep: a sleep that a signal interrupts returns \<open>-1\<close>, which
  is none of the five values.
\<close>

theorem thrd_sleep_status_counterexample:
  "fst (thrd_sleep nanosleep_eintr (Some \<lparr>tv_sec = 1, tv_nsec = 0\<rparr>) None) \<notin> status_codes"
  by (simp add: thrd_sleep_def nanosleep_eintr_def status_codes_def thrd_success_def
      thrd_error_def thrd_timedout_def thrd_busy_def thrd_nomem_def)

subsection \<open>Exit, then Join\<close>

text \<open>
  C3. For every \<open>code\<close>: Exit ends the thread with the pointer-sized value \<open>p\<close> that
  encodes \<open>code\<close>; when the native join succeeds and delivers \<open>p\<close>, Join returns
  Success and stores exactly \<open>code\<close>. Decoding inverts encoding on all of \<open>int\<close>, and
  \<open>p\<close>, read as a signed 64-bit integer, is \<open>code\<close>.
\<close>

theorem thrd_exit_join_roundtrip:
  assumes "thrd_exit code = Pthread_exit p"
      and "pthread_join thr = (0, p)"
  shows "thrd_join pthread_join thr (Some old) = (thrd_success, Some code) \<and>
         int_of_ptr (ptr_of_int code) = code \<and> sint p = sint code"
proof -
  from assms(1) have p: "p = ptr_of_int code"
    by (simp add: thrd_exit_def)
  from assms(2)
  have "thrd_join pthread_join thr (Some old) = (thrd_success, Some (int_of_ptr p))"
    by (rule thrd_join_success)
  with p show ?thesis
    by (simp add: int_of_ptr_of_int sint_ptr_of_int)
qed

theorem thrd_exit_join_roundtrip_witness:
  "thrd_exit (- 1) = Pthread_exit 18446744073709551615 \<and>
   thrd_join (pthread_join_yields 18446744073709551615) 4096 (Some 0) =
     (thrd_success, Some (- 1))"
proof -
  have e: "thrd_exit (- 1) = Pthread_exit 18446744073709551615"
    by (simp add: thrd_exit_def ptr_of_int_def)
  have j: "pthread_join_yields 18446744073709551615 4096 = (0, 18446744073709551615)"
    by (simp add: pthread_join_yields_def)
  from thrd_exit_join_roundtrip
      [where code = "- 1" and p = 18446744073709551615 and thr = 4096
         and pthread_join = "pthread_join_yields 18446744073709551615" and old = 0, OF e j] e
  show ?thesis
    by simp
qed

subsection \<open>Create\<close>

text \<open>
  C4. Create calls the native create once, on the caller's handle location, with no
  attributes (\<open>NULL\<close>, the defaults), the start routine and the argument. It returns
  Success exactly when the native create returns zero and Error exactly when it
  returns a non-zero value, for every start routine and argument; the handle location
  then holds what the native create stored there.
\<close>

theorem thrd_create_forwards:
  "thrd_create pthread_create thr func arg =
     (if fst (pthread_create thr None func arg) = 0 then thrd_success else thrd_error,
      snd (pthread_create thr None func arg)) \<and>
   (fst (thrd_create pthread_create thr func arg) = thrd_success) =
     (fst (pthread_create thr None func arg) = 0) \<and>
   (fst (thrd_create pthread_create thr func arg) = thrd_error) =
     (fst (pthread_create thr None func arg) \<noteq> 0)"
  by (simp add: thrd_create_def thrd_error_neq_success thrd_error_neq_success [symmetric]
      split: prod.splits)

theorem thrd_create_forwards_witness:
  "thrd_create pthread_create_ok 0 (start_returning 7) 0 = (thrd_success, 4096) \<and>
   thrd_create pthread_create_eagain 0 (start_returning 7) 0 = (thrd_error, 0)"
  using thrd_create_forwards [of pthread_create_ok 0 "start_returning 7" 0]
    thrd_create_forwards [of pthread_create_eagain 0 "start_returning 7" 0]
  by (simp add: pthread_create_ok_def pthread_create_eagain_def)

text \<open>
  C5, as amended. Create does not store into the handle location itself: it hands the
  location to the native create. When Create fails, the location holds what the native
  create left there, and is unchanged exactly when the native create left it
  unchanged.
\<close>

theorem thrd_create_failure_frame:
  assumes "fst (thrd_create pthread_create thr func arg) = thrd_error"
  shows "snd (thrd_create pthread_create thr func arg) =
           snd (pthread_create thr None func arg) \<and>
         (snd (thrd_create pthread_create thr func arg) = thr) =
           (snd (pthread_create thr None func arg) = thr)"
  by (simp add: thrd_create_def split: prod.splits)

theorem thrd_create_failure_frame_witness:
  "fst (thrd_create pthread_create_eagain 5 (start_returning 7) 0) = thrd_error \<and>
   snd (thrd_create pthread_create_eagain 5 (start_returning 7) 0) = 5"
proof -
  have e: "fst (thrd_create pthread_create_eagain 5 (start_returning 7) 0) = thrd_error"
    by (simp add: thrd_create_def pthread_create_eagain_def)
  from thrd_create_failure_frame [OF e] e show ?thesis
    by (simp add: pthread_create_eagain_def)
qed

text \<open>
  C5 as stated fails when the native create stores into the location before it
  fails: Create returns Error and the location, which held 0, holds 4096.
\<close>

theorem thrd_create_failure_counterexample:
  "fst (thrd_create pthread_create_eagain_stored 0 (start_returning 7) 0) = thrd_error \<and>
   snd (thrd_create pthread_create_eagain_stored 0 (start_returning 7) 0) \<noteq> 0"
  by (simp add: thrd_create_def pthread_create_eagain_stored_def)

subsection \<open>Join\<close>

text \<open>
  C6. For every handle: when the native join returns zero, Join returns Success, with
  no output location (the exit code is discarded) as well as with one (the decoded
  exit code is stored there); when the native join returns a non-zero value, Join
  returns Error.
\<close>

theorem thrd_join_status:
  "(fst (pthread_join thr) = 0 \<longrightarrow>
      thrd_join pthread_join thr None = (thrd_success, None) \<and>
      thrd_join pthread_join thr (Some old) =
        (thrd_success, Some (int_of_ptr (snd (pthread_join thr))))) \<and>
   (fst (pthread_join thr) \<noteq> 0 \<longrightarrow> fst (thrd_join pthread_join thr res) = thrd_error)"
  by (simp add: thrd_join_def split: prod.splits)

theorem thrd_join_status_witness:
  "thrd_join (pthread_join_yields 7) 4096 None = (thrd_success, None) \<and>
   thrd_join (pthread_join_yields 7) 4096 (Some 0) = (thrd_success, Some 7) \<and>
   fst (thrd_join pthread_join_esrch 4096 None) = thrd_error"
  using thrd_join_status [of "pthread_join_yields 7" 4096 0 None]
    thrd_join_status [of pthread_join_esrch 4096 0 None]
  by (simp add: pthread_join_yields_def pthread_join_esrch_def int_of_ptr_def)

text \<open>
  C10. Whenever Join returns Error, the output location is as it was before the call:
  a null pointer stays null, a location keeps the value it held.
\<close>

theorem thrd_join_error_frame:
  assumes "fst (thrd_join pthread_join thr res) = thrd_error"
  shows "snd (thrd_join pthread_join thr res) = res"
  using assms
  by (simp add: thrd_join_def thrd_error_neq_success [symmetric]
      split: prod.splits if_splits)

theorem thrd_join_error_frame_witness:
  "fst (thrd_join pthread_join_esrch 4096 (Some 42)) = thrd_error \<and>
   snd (thrd_join pthread_join_esrch 4096 (Some 42)) = Some 42"
proof -
  have e: "fst (thrd_join pthread_join_esrch 4096 (Some 42)) = thrd_error"
    by (simp add: thrd_join_def pthread_join_esrch_def)
  from thrd_join_error_frame [OF e] e show ?thesis
    by simp
qed

subsection \<open>Equal and Current\<close>

text \<open>
  C7. Equal is a function of its two handles alone: it reads and changes nothing else.
  When the native comparison answers non-zero exactly for two identifiers of the same
  thread, Equal (read as true when non-zero) is reflexive, symmetric and transitive.
\<close>

theorem thrd_equal_equivalence:
  assumes "\<forall>a b. (pthread_equal a b \<noteq> 0) = (a = b)"
  shows "thrd_equal pthread_equal a a \<noteq> 0 \<and>
         (thrd_equal pthread_equal a b \<noteq> 0) = (thrd_equal pthread_equal b a \<noteq> 0) \<and>
         (thrd_equal pthread_equal a b \<noteq> 0 \<and> thrd_equal pthread_equal b c \<noteq> 0 \<longrightarrow>
            thrd_equal pthread_equal a c \<noteq> 0)"
  using assms by (auto simp add: thrd_equal_def)

theorem thrd_equal_equivalence_witness:
  "thrd_equal pthread_equal_ids 4096 4096 \<noteq> 0 \<and>
   (thrd_equal pthread_equal_ids 4096 8192 \<noteq> 0) =
     (thrd_equal pthread_equal_ids 8192 4096 \<noteq> 0)"
proof -
  have h: "\<forall>a b. (pthread_equal_ids a b \<noteq> 0) = (a = b)"
    by (simp add: pthread_equal_ids_def)
  from thrd_equal_equivalence [OF h, of 4096 8192 4096] show ?thesis
    by simp
qed

text \<open>
  C8. Current forwards to the native self: in every state of the host it returns the
  identifier the native self gives the calling thread in that state. The host may have
  moved from a state \<open>s1\<close> to another state \<open>s2\<close> between two calls of Current on one
  thread. When the native self gives a thread the same identifier in every state, and
  the native comparison answers non-zero exactly for two identifiers of the same
  thread, the two handles compare as equal under Equal.
\<close>

theorem thrd_current_equal:
  assumes "\<forall>s s'. pthread_self s self = pthread_self s' self"
      and "\<forall>a b. (pthread_equal a b \<noteq> 0) = (a = b)"
  shows "thrd_equal pthread_equal (thrd_current pthread_self s1 self)
           (thrd_current pthread_self s2 self) \<noteq> 0 \<and>
         thrd_current pthread_self s1 self = pthread_self s1 self \<and>
         thrd_current pthread_self s2 self = pthread_self s2 self"
proof -
  have c1: "thrd_current pthread_self s1 self = pthread_self s1 self"
    by (simp add: thrd_current_def)
  have c2: "thrd_current pthread_self s2 self = pthread_self s2 self"
    by (simp add: thrd_current_def)
  from assms(1) have "pthread_self s1 self = pthread_self s2 self"
    by blast
  with c1 c2 have "thrd_current pthread_self s1 self = thrd_current pthread_self s2 self"
    by simp
  with assms(2)
  have "thrd_equal pthread_equal (thrd_current pthread_self s1 self)
          (thrd_current pthread_self s2 self) \<noteq> 0"
    by (simp add: thrd_equal_def)
  with c1 c2 show ?thesis by simp
qed

text \<open>Thread number 3 calls Current in state 0 and again in state 7.\<close>

theorem thrd_current_equal_witness:
  "thrd_equal pthread_equal_ids (thrd_current pthread_self_id 0 3)
     (thrd_current pthread_self_id 7 3) \<noteq> 0 \<and>
   thrd_current pthread_self_id 0 3 = 12288 \<and>
   thrd_current pthread_self_id 7 3 = 12288"
proof -
  have s: "\<forall>s s'. pthread_self_id s (3 :: nat) = pthread_self_id s' 3"
    by (simp add: pthread_self_id_def)
  have h: "\<forall>a b. (pthread_equal_ids a b \<noteq> 0) = (a = b)"
    by (simp add: pthread_equal_ids_def)
  note t = thrd_current_equal
    [where pthread_self = pthread_self_id and self = 3
       and pthread_equal = pthread_equal_ids and ?s1.0 = 0 and ?s2.0 = 7, OF s h]
  have v: "pthread_self_id 0 3 = 12288" "pthread_self_id 7 3 = 12288"
    by (simp_all add: pthread_self_id_def)
  from t have "thrd_equal pthread_equal_ids (thrd_current pthread_self_id 0 3)
                 (thrd_current pthread_self_id 7 3) \<noteq> 0"
    by (rule conjunct1)
  moreover from t v have "thrd_current pthread_self_id 0 3 = 12288"
    by simp
  moreover from t v have "thrd_current pthread_self_id 7 3 = 12288"
    by simp
  ultimately show ?thesis by blast
qed

subsection \<open>Exit\<close>

text \<open>
  C9. For every \<open>code\<close>, Exit ends the calling thread in the native exit, with the
  encoded \<open>code\<close>: it returns no value to its caller.
\<close>

theorem thrd_exit_never_returns:
  "thrd_exit code = Pthread_exit (ptr_of_int code) \<and> (\<forall>v. thrd_exit code \<noteq> Returns v)"
  by (simp add: thrd_exit_def)

end
